theory Spec2Isabelle
  imports Main "HOL-Library.Multiset"
begin

section \<open>Values and rows\<close>

text \<open>
  User ids are the store's UUID strings, socket ids are Socket.IO's connection ids
  (opaque, never empty, so every id read from the presence map passes the handlers'
  \<^verbatim>\<open>if (targetSocketId)\<close> test). Timestamps are clock readings. Coordinates are the
  fixed-point decimals of the schema (\<^verbatim>\<open>DECIMAL(10, 8)\<close>), kept as scaled integers.
  A request field that may be \<^verbatim>\<open>undefined\<close> or \<^verbatim>\<open>null\<close> is an option.
\<close>

type_synonym userId = string
type_synonym socketId = nat
type_synonym timestamp = nat
type_synonym coord = int

text \<open>JavaScript truthiness of a string-or-null value.\<close>

definition truthy :: "string option \<Rightarrow> bool" where
  "truthy v = (case v of None \<Rightarrow> False | Some s \<Rightarrow> s \<noteq> [])"

record user_row =
  full_name :: string
  phone_number :: string
  fcm_token :: "string option"

record connection_row =
  requester_id :: userId
  addressee_id :: userId
  conn_status :: string

record family_member_row =
  fm_family_id :: string
  fm_user_id :: userId

record permission_row =
  perm_user_id :: userId
  shared_with_user_id :: "userId option"
  is_enabled :: bool
  expires_at :: "timestamp option"

record contact_row =
  ec_user_id :: userId
  contact_user_id :: "userId option"
  contact_name :: string
  contact_phone :: "string option"
  contact_email :: "string option"
  priority :: int

record alert_row =
  alert_id :: nat
  alert_user_id :: userId
  alert_latitude :: coord
  alert_longitude :: coord
  alert_message :: string
  status :: string
  is_resolved :: bool
  resolved_at :: "timestamp option"
  created_at :: timestamp

record notification_row =
  sos_alert_id :: nat
  recipient_user_id :: "userId option"
  recipient_phone :: "string option"
  recipient_email :: "string option"
  notification_type :: string
  is_delivered :: bool
  delivered_at :: "timestamp option"

record location_row =
  loc_user_id :: userId
  loc_latitude :: coord
  loc_longitude :: coord
  loc_accuracy :: "coord option"
  loc_altitude :: "coord option"
  loc_speed :: "coord option"
  loc_heading :: "coord option"
  loc_timestamp :: timestamp

text \<open>
  The relational store the handlers query through the Supabase client: one list of rows
  per table, \<^verbatim>\<open>users\<close> keyed by its primary key.
\<close>

record store =
  users :: "userId \<rightharpoonup> user_row"
  user_connections :: "connection_row list"
  family_members :: "family_member_row list"
  location_permissions :: "permission_row list"
  emergency_contacts :: "contact_row list"
  sos_alerts :: "alert_row list"
  sos_notifications :: "notification_row list"
  user_locations :: "location_row list"

text \<open>
  What a request cannot see in its arguments: whether the FCM endpoint accepts a post for a
  token (\<^verbatim>\<open>axios.post\<close> resolves), whether the database accepts a write (an insert or
  update returns no \<^verbatim>\<open>error\<close>), the clock read by \<^verbatim>\<open>new Date()\<close>, and how long
  the callback started for a contact takes to reach its insert (its token lookup, its
  FCM post and its SMS are awaited first).
\<close>

record env =
  fcm_ok :: "string \<Rightarrow> bool"
  db_write_ok :: bool
  clock :: timestamp
  latency :: "contact_row \<Rightarrow> nat"

text \<open>
  \<^verbatim>\<open>contacts.map(async ...)\<close> starts the callbacks of all contacts at once; they reach
  their inserts in the order of their latencies, whatever the order of the list. Any
  order of distinct contacts is the \<^verbatim>\<open>completion_order\<close> of some latencies.
\<close>

definition completion_order :: "env \<Rightarrow> contact_row list \<Rightarrow> contact_row list" where
  "completion_order e contacts = sort_key (latency e) contacts"

text \<open>
  \<^verbatim>\<open>.single()\<close> of the Supabase client: the row when the query matches exactly one,
  \<^verbatim>\<open>data: null\<close> when it matches none or several.
\<close>

definition single :: "'a list \<Rightarrow> 'a option" where
  "single rows = (case rows of [r] \<Rightarrow> Some r | _ \<Rightarrow> None)"

section \<open>Presence registry (server.js: activeUsers and the join/disconnect handlers)\<close>

text \<open>
  \<^verbatim>\<open>activeUsers\<close> is the map userId -> socketId; \<^verbatim>\<open>socket_userId\<close> holds the
  \<^verbatim>\<open>userId\<close> property the join handler stores on each socket object; \<^verbatim>\<open>connected\<close>
  is Socket.IO's own set of open connections, which only the connection and disconnect
  events change.
\<close>

record server =
  db :: store
  activeUsers :: "userId \<rightharpoonup> socketId"
  socket_userId :: "socketId \<rightharpoonup> userId"
  connected :: "socketId set"

definition empty_store :: store where
  "empty_store = \<lparr>users = Map.empty, user_connections = [], family_members = [],
     location_permissions = [], emergency_contacts = [], sos_alerts = [],
     sos_notifications = [], user_locations = []\<rparr>"

definition init_server :: server where
  "init_server = \<lparr>db = empty_store, activeUsers = Map.empty, socket_userId = Map.empty,
     connected = {}\<rparr>"

definition lookup :: "server \<Rightarrow> userId \<Rightarrow> socketId option" where
  "lookup srv u = activeUsers srv u"

definition connection :: "server \<Rightarrow> socketId \<Rightarrow> server" where
  "connection srv s = srv\<lparr>connected := insert s (connected srv)\<rparr>"

definition join :: "server \<Rightarrow> socketId \<Rightarrow> userId \<Rightarrow> server" where
  "join srv s userId =
     srv\<lparr>activeUsers := (activeUsers srv)(userId \<mapsto> s),
         socket_userId := (socket_userId srv)(s \<mapsto> userId)\<rparr>"

definition disconnect :: "server \<Rightarrow> socketId \<Rightarrow> server" where
  "disconnect srv s =
     (let srv' = srv\<lparr>connected := connected srv - {s}\<rparr>
      in if truthy (socket_userId srv s)
         then srv'\<lparr>activeUsers := (activeUsers srv)(the (socket_userId srv s) := None)\<rparr>
         else srv')"

datatype presence_event = Connection socketId | Join socketId userId | Disconnect socketId

fun step :: "server \<Rightarrow> presence_event \<Rightarrow> server" where
  "step srv (Connection s) = connection srv s"
| "step srv (Join s u) = join srv s u"
| "step srv (Disconnect s) = disconnect srv s"

definition run :: "server \<Rightarrow> presence_event list \<Rightarrow> server" where
  "run srv evs = foldl step srv evs"


section \<open>Authorization (routes/locations.js: checkLocationPermission)\<close>

definition accepted_between :: "store \<Rightarrow> userId \<Rightarrow> userId \<Rightarrow> connection_row list" where
  "accepted_between st a b =
     filter (\<lambda>c. ((requester_id c = a \<and> addressee_id c = b) \<or>
                  (requester_id c = b \<and> addressee_id c = a)) \<and> conn_status c = ''accepted'')
       (user_connections st)"

definition families_of :: "store \<Rightarrow> userId \<Rightarrow> string list" where
  "families_of st u = map fm_family_id (filter (\<lambda>m. fm_user_id m = u) (family_members st))"

definition enabled_grants :: "store \<Rightarrow> userId \<Rightarrow> userId \<Rightarrow> permission_row list" where
  "enabled_grants st targetUserId requesterId =
     filter (\<lambda>p. perm_user_id p = targetUserId \<and> shared_with_user_id p = Some requesterId \<and>
                 is_enabled p) (location_permissions st)"

datatype js_error = TypeError

text \<open>
  The checks in the order of the source; \<^verbatim>\<open>Inl\<close> is a rejected promise. The
  connection query ends in \<^verbatim>\<open>.single()\<close>. The family query is built by
  \<^verbatim>\<open>.in('family_id', supabase.from('family_members')...)\<close>: the client expects an
  array of values there and is handed a query builder, which it cannot iterate, so
  building the query throws a TypeError. Every call that is not answered by the first
  two checks ends there. The statements after it (the \<^verbatim>\<open>length > 0\<close> test and the
  permission query, which filters on \<^verbatim>\<open>user_id\<close>, \<^verbatim>\<open>shared_with_user_id\<close> and
  \<^verbatim>\<open>is_enabled\<close> and not on \<^verbatim>\<open>expires_at\<close>) are never reached.
\<close>

definition checkLocationPermission :: "store \<Rightarrow> userId \<Rightarrow> userId \<Rightarrow> js_error + bool" where
  "checkLocationPermission st requesterId targetUserId =
     (if requesterId = targetUserId then Inr True
      else if single (accepted_between st requesterId targetUserId) \<noteq> None then Inr True
      else Inl TypeError)"

text \<open>
  The rule in the specification's words, for comparison with the function above:
  self, or an accepted connection in either direction, or a common family, or an explicit
  permission from subject to viewer that is enabled and, if it has an expiry, not expired.
\<close>

definition canView_spec :: "timestamp \<Rightarrow> store \<Rightarrow> userId \<Rightarrow> userId \<Rightarrow> bool" where
  "canView_spec now st viewer subject =
     (viewer = subject
      \<or> 0 < length (accepted_between st viewer subject)
      \<or> list_ex (\<lambda>f. f \<in> set (families_of st subject)) (families_of st viewer)
      \<or> list_ex (\<lambda>p. case expires_at p of None \<Rightarrow> True | Some t \<Rightarrow> now < t)
           (enabled_grants st subject viewer))"

section \<open>Location update router (server.js: the location_update handler)\<close>

record location_payload =
  lp_userId :: userId
  lp_latitude :: "coord option"
  lp_longitude :: "coord option"
  lp_accuracy :: "coord option"
  lp_altitude :: "coord option"
  lp_speed :: "coord option"
  lp_heading :: "coord option"

text \<open>
  What a handler sends out: an event emitted to one socket, a post to the FCM endpoint (token
  and the \<^verbatim>\<open>data.type\<close> of the payload), an SMS (phone number).
\<close>

datatype emit_payload =
    LocationUpdated userId coord coord "coord option" timestamp
  | SosReceived nat string string coord coord string timestamp
  | SosSent nat
  | ErrorMessage string

datatype effect = Emit socketId emit_payload | FCM string string | SMS string

definition is_location_updated :: "effect \<Rightarrow> bool" where
  "is_location_updated x =
     (case x of Emit s (LocationUpdated u la lo ac ts) \<Rightarrow> True | _ \<Rightarrow> False)"

text \<open>
  The insert fails (and the handler's \<^verbatim>\<open>throw error\<close> leads to the error event on the
  sending socket) when the database rejects the write or a coordinate is missing, the
  columns being \<^verbatim>\<open>NOT NULL\<close>. The audience is read from \<^verbatim>\<open>location_permissions\<close>
  alone (rows of the subject with \<^verbatim>\<open>is_enabled\<close>); a row shared with a family has no
  \<^verbatim>\<open>shared_with_user_id\<close> and finds no socket.
\<close>

definition location_update ::
  "env \<Rightarrow> server \<Rightarrow> socketId \<Rightarrow> location_payload \<Rightarrow> server \<times> effect list" where
  "location_update e srv socket data =
     (case (db_write_ok e, lp_latitude data, lp_longitude data) of
        (True, Some latitude, Some longitude) \<Rightarrow>
          (let location = \<lparr>loc_user_id = lp_userId data, loc_latitude = latitude,
                  loc_longitude = longitude, loc_accuracy = lp_accuracy data,
                  loc_altitude = lp_altitude data, loc_speed = lp_speed data,
                  loc_heading = lp_heading data, loc_timestamp = clock e\<rparr>;
               st' = (db srv)\<lparr>user_locations := user_locations (db srv) @ [location]\<rparr>;
               permissions = filter (\<lambda>p. perm_user_id p = lp_userId data \<and> is_enabled p)
                               (location_permissions st')
           in (srv\<lparr>db := st'\<rparr>,
               concat (map (\<lambda>perm.
                  case shared_with_user_id perm of
                    None \<Rightarrow> []
                  | Some viewer \<Rightarrow>
                      (case activeUsers srv viewer of
                         None \<Rightarrow> []
                       | Some targetSocketId \<Rightarrow>
                           [Emit targetSocketId
                              (LocationUpdated (lp_userId data) latitude longitude
                                 (lp_accuracy data) (loc_timestamp location))]))
                 permissions)))
      | _ \<Rightarrow> (srv, [Emit socket (ErrorMessage ''Failed to update location'')]))"

section \<open>SOS over HTTP (routes/sos.js)\<close>

datatype body = ErrorBody string | TriggerBody nat nat nat | MessageBody string

text \<open>
  \<^verbatim>\<open>res.status(n).json(body)\<close>. A \<^verbatim>\<open>TriggerBody\<close> carries \<^verbatim>\<open>alertId\<close>,
  \<^verbatim>\<open>notificationsSent\<close> and \<^verbatim>\<open>totalContacts\<close> of the success response.
\<close>

datatype response = Response nat body

text \<open>The id the database gives a new alert row: one no row of the table has.\<close>

definition fresh_alert_id :: "store \<Rightarrow> nat" where
  "fresh_alert_id st = Suc (fold max (map alert_id (sos_alerts st)) 0)"

text \<open>\<^verbatim>\<open>from('emergency_contacts').eq('user_id', userId).order('priority')\<close>.\<close>

definition contacts_of :: "store \<Rightarrow> userId \<Rightarrow> contact_row list" where
  "contacts_of st userId =
     sort_key priority (filter (\<lambda>c. ec_user_id c = userId) (emergency_contacts st))"

text \<open>
  An insert into \<^verbatim>\<open>sos_notifications\<close>. No caller looks at the returned
  \<^verbatim>\<open>error\<close>: a rejected write is lost silently.
\<close>

definition insert_notification :: "env \<Rightarrow> store \<Rightarrow> notification_row \<Rightarrow> store" where
  "insert_notification e st n =
     (if db_write_ok e then st\<lparr>sos_notifications := sos_notifications st @ [n]\<rparr> else st)"

text \<open>
  The FCM token the helpers read for a contact: none unless \<^verbatim>\<open>contact_user_id\<close> is
  truthy, that user has a row, and the row's \<^verbatim>\<open>fcm_token\<close> is truthy.
\<close>

definition fcm_token_of :: "store \<Rightarrow> userId option \<Rightarrow> string option" where
  "fcm_token_of st cuid =
     (case cuid of
        None \<Rightarrow> None
      | Some cu \<Rightarrow>
          if cu = [] then None
          else (case users st cu of
                  None \<Rightarrow> None
                | Some contactUser \<Rightarrow>
                    if truthy (fcm_token contactUser) then fcm_token contactUser else None))"

text \<open>
  The rest of the \<^verbatim>\<open>try\<close> block of \<^verbatim>\<open>sendSOSNotification\<close>, from the comment
  "Always send SMS as backup" on: the SMS when the phone is truthy (\<^verbatim>\<open>sendSMS\<close> only
  logs and cannot fail), then the one insert into the notification log and the
  fulfilled return. It is given the values the local variables \<^verbatim>\<open>notificationType\<close>
  and \<^verbatim>\<open>isDelivered\<close> have after the push part, and the effects so far.
\<close>

definition sms_and_log ::
  "env \<Rightarrow> store \<Rightarrow> contact_row \<Rightarrow> alert_row \<Rightarrow> string \<Rightarrow> bool \<Rightarrow> effect list
     \<Rightarrow> store \<times> effect list \<times> bool" where
  "sms_and_log e st contact alert notificationType0 isDelivered0 effs =
     (let sms = truthy (contact_phone contact);
          notificationType =
            (if sms \<and> notificationType0 \<noteq> ''push'' then ''sms'' else notificationType0);
          isDelivered = (if sms then True else isDelivered0)
      in (insert_notification e st
            \<lparr>sos_alert_id = alert_id alert, recipient_user_id = contact_user_id contact,
             recipient_phone = contact_phone contact, recipient_email = contact_email contact,
             notification_type = notificationType, is_delivered = isDelivered,
             delivered_at = (if isDelivered then Some (clock e) else None)\<rparr>,
          effs @ (case contact_phone contact of
                    Some phone \<Rightarrow> if sms then [SMS phone] else []
                  | None \<Rightarrow> []),
          True))"

text \<open>
  \<^verbatim>\<open>sendSOSNotification(contact, user, alert)\<close>; the boolean is whether the promise is
  fulfilled. The message is built from \<^verbatim>\<open>user.full_name\<close> before the \<^verbatim>\<open>try\<close>:
  with no user row the call rejects at once and logs nothing. This file's
  \<^verbatim>\<open>sendFCMNotification\<close> lets a failed post throw: the \<^verbatim>\<open>catch\<close> block then logs
  one failed row, with \<^verbatim>\<open>notificationType\<close> still at its initial 'sms', and rethrows.
\<close>

definition sendSOSNotification ::
  "env \<Rightarrow> store \<Rightarrow> contact_row \<Rightarrow> user_row option \<Rightarrow> alert_row
     \<Rightarrow> store \<times> effect list \<times> bool" where
  "sendSOSNotification e st contact user alert =
     (case user of
        None \<Rightarrow> (st, [], False)
      | Some u \<Rightarrow>
          (case fcm_token_of st (contact_user_id contact) of
             Some token \<Rightarrow>
               if fcm_ok e token
               then sms_and_log e st contact alert ''push'' True [FCM token ''sos'']
               else (insert_notification e st
                       \<lparr>sos_alert_id = alert_id alert,
                        recipient_user_id = contact_user_id contact,
                        recipient_phone = contact_phone contact, recipient_email = None,
                        notification_type = ''sms'', is_delivered = False,
                        delivered_at = None\<rparr>,
                     [FCM token ''sos''], False)
           | None \<Rightarrow> sms_and_log e st contact alert ''sms'' False []))"

text \<open>
  \<^verbatim>\<open>Promise.allSettled(contacts.map(...))\<close>: every contact is processed, whatever the
  others do. The function is given the contacts in their order of completion and takes
  them one after another; each adds at most one row. The sends of one contact are kept
  together in the list of effects. No callback reads what another one writes.
\<close>

fun notify_all ::
  "env \<Rightarrow> store \<Rightarrow> contact_row list \<Rightarrow> user_row option \<Rightarrow> alert_row
     \<Rightarrow> store \<times> effect list \<times> bool list" where
  "notify_all e st [] user alert = (st, [], [])"
| "notify_all e st (c # cs) user alert =
     (case sendSOSNotification e st c user alert of
        (st1, effs1, ok) \<Rightarrow>
          (case notify_all e st1 cs user alert of
             (st2, effs2, oks) \<Rightarrow> (st2, effs1 @ effs2, ok # oks)))"

definition no_contacts_error :: string where
  "no_contacts_error =
     ''No emergency contacts configured. Please add emergency contacts first.''"

text \<open>The police-light emoji (U+1F6A8) that opens the default message, as UTF-8 bytes.\<close>

definition siren :: string where
  "siren = [CHR 0xF0, CHR 0x9F, CHR 0x9A, CHR 0xA8]"

text \<open>
  \<^verbatim>\<open>message || `<siren> EMERGENCY! ${user.full_name} needs help!`\<close>: the default reads
  \<^verbatim>\<open>user.full_name\<close>, a TypeError (None) when the message is falsy and the user has
  no row.
\<close>

definition alert_text :: "string option \<Rightarrow> user_row option \<Rightarrow> string option" where
  "alert_text message user =
     (if truthy message then message
      else map_option (\<lambda>u. siren @ '' EMERGENCY! '' @ full_name u @ '' needs help!'') user)"

text \<open>
  \<^verbatim>\<open>POST /api/sos/trigger\<close>, in the order of the source: the coordinate check
  (\<^verbatim>\<open>!latitude || !longitude\<close>, true of a missing and of a zero coordinate), the user
  row, the insert of the alert, the contacts, the no-contacts answer, the fan-out, the
  counts (\<^verbatim>\<open>allSettled\<close> waits for every callback; the count of the fulfilled ones
  does not depend on their order). A TypeError and a rejected insert are answered 500 by
  the \<^verbatim>\<open>catch\<close>.
\<close>

definition trigger ::
  "env \<Rightarrow> store \<Rightarrow> userId \<Rightarrow> coord option \<Rightarrow> coord option \<Rightarrow> string option
     \<Rightarrow> store \<times> effect list \<times> response" where
  "trigger e st userId latitude longitude message =
     (case (latitude, longitude) of
        (Some lat, Some lon) \<Rightarrow>
          if lat = 0 \<or> lon = 0
          then (st, [], Response 400 (ErrorBody ''Location coordinates required''))
          else
            (let user = users st userId
             in case alert_text message user of
                  None \<Rightarrow> (st, [], Response 500 (ErrorBody ''Failed to trigger SOS alert''))
                | Some text \<Rightarrow>
                    if db_write_ok e
                    then
                      (let alert = \<lparr>alert_id = fresh_alert_id st, alert_user_id = userId,
                              alert_latitude = lat, alert_longitude = lon,
                              alert_message = text, status = ''active'', is_resolved = False,
                              resolved_at = None, created_at = clock e\<rparr>;
                           st1 = st\<lparr>sos_alerts := sos_alerts st @ [alert]\<rparr>;
                           contacts = contacts_of st1 userId
                       in if contacts = []
                          then (st1, [], Response 400 (ErrorBody no_contacts_error))
                          else
                            (case notify_all e st1 (completion_order e contacts) user alert of
                               (st2, effs, oks) \<Rightarrow>
                                 (st2, effs,
                                  Response 200
                                    (TriggerBody (alert_id alert) (length (filter id oks))
                                       (length contacts)))))
                    else (st, [], Response 500 (ErrorBody ''Failed to trigger SOS alert'')))
      | _ \<Rightarrow> (st, [], Response 400 (ErrorBody ''Location coordinates required'')))"

text \<open>
  \<^verbatim>\<open>sendResolutionNotification\<close>: a push to the recipient's token when there is one.
  It is called under \<^verbatim>\<open>Promise.allSettled\<close>, so a failed post changes nothing.
\<close>

definition sendResolutionNotification :: "store \<Rightarrow> userId option \<Rightarrow> effect list" where
  "sendResolutionNotification st recipientUserId =
     (case recipientUserId of
        None \<Rightarrow> []
      | Some r \<Rightarrow>
          (case users st r of
             None \<Rightarrow> []
           | Some user \<Rightarrow>
               (case fcm_token user of
                  None \<Rightarrow> []
                | Some t \<Rightarrow> if t \<noteq> [] then [FCM t ''sos_resolved''] else [])))"

text \<open>
  \<^verbatim>\<open>PUT /api/sos/alerts/:alertId/resolve\<close>: the alert is read by id with
  \<^verbatim>\<open>.single()\<close>, only \<^verbatim>\<open>user_id\<close> is selected and compared; the update follows with
  no test of the current status. The callback of \<^verbatim>\<open>notifications.map\<close> reads the
  owner's name through the alert: with rows to notify and no user row for the owner it
  throws, after the update, and the answer is 500.
\<close>

definition resolve ::
  "env \<Rightarrow> store \<Rightarrow> userId \<Rightarrow> nat \<Rightarrow> store \<times> effect list \<times> response" where
  "resolve e st userId alertId =
     (case single (filter (\<lambda>a. alert_id a = alertId) (sos_alerts st)) of
        None \<Rightarrow> (st, [], Response 403 (ErrorBody ''Unauthorized to resolve this alert''))
      | Some alert \<Rightarrow>
          if alert_user_id alert \<noteq> userId
          then (st, [], Response 403 (ErrorBody ''Unauthorized to resolve this alert''))
          else if db_write_ok e
          then
            (let st1 = st\<lparr>sos_alerts :=
                     map (\<lambda>a. if alert_id a = alertId
                               then a\<lparr>status := ''resolved'', is_resolved := True,
                                      resolved_at := Some (clock e)\<rparr>
                               else a) (sos_alerts st)\<rparr>;
                 notifications = filter (\<lambda>n. sos_alert_id n = alertId) (sos_notifications st1)
             in case (notifications, users st1 (alert_user_id alert)) of
                  ([], owner) \<Rightarrow>
                    (st1, [], Response 200 (MessageBody ''Alert resolved successfully''))
                | (n # ns, None) \<Rightarrow>
                    (st1, [], Response 500 (ErrorBody ''Failed to resolve alert''))
                | (n # ns, Some owner) \<Rightarrow>
                    (st1,
                     concat (map (\<lambda>notif. sendResolutionNotification st1 (recipient_user_id notif))
                               (n # ns)),
                     Response 200 (MessageBody ''Alert resolved successfully'')))
          else (st, [], Response 500 (ErrorBody ''Failed to resolve alert'')))"

section \<open>SOS over Socket.IO (server.js: the sos_alert handler)\<close>

record sos_payload =
  sp_userId :: userId
  sp_latitude :: "coord option"
  sp_longitude :: "coord option"
  sp_message :: "string option"

text \<open>
  The three sends of the per-contact callback, each None when it throws. Every payload
  reads \<^verbatim>\<open>user.full_name\<close> while it is built, a TypeError when the sender has no
  user row, raised before anything is sent. server.js has its own
  \<^verbatim>\<open>sendFCMNotification\<close>, which catches a failed post, and \<^verbatim>\<open>sendSMS\<close> only logs:
  with a user row, none of the three can fail.
\<close>

definition live_send ::
  "server \<Rightarrow> user_row option \<Rightarrow> alert_row \<Rightarrow> coord \<Rightarrow> coord \<Rightarrow> contact_row
     \<Rightarrow> effect list option" where
  "live_send srv user alert latitude longitude contact =
     (if truthy (contact_user_id contact)
      then (case activeUsers srv (the (contact_user_id contact)) of
              None \<Rightarrow> Some []
            | Some targetSocketId \<Rightarrow>
                (case user of
                   None \<Rightarrow> None
                 | Some u \<Rightarrow>
                     Some [Emit targetSocketId
                             (SosReceived (alert_id alert) (full_name u) (phone_number u)
                                latitude longitude (alert_message alert) (created_at alert))]))
      else Some [])"

definition fcm_send :: "store \<Rightarrow> user_row option \<Rightarrow> contact_row \<Rightarrow> effect list option" where
  "fcm_send st user contact =
     (case fcm_token_of st (contact_user_id contact) of
        None \<Rightarrow> Some []
      | Some token \<Rightarrow> (case user of None \<Rightarrow> None | Some u \<Rightarrow> Some [FCM token ''sos'']))"

definition sms_send :: "user_row option \<Rightarrow> contact_row \<Rightarrow> effect list option" where
  "sms_send user contact =
     (case contact_phone contact of
        None \<Rightarrow> Some []
      | Some phone \<Rightarrow>
          if phone = [] then Some []
          else (case user of None \<Rightarrow> None | Some u \<Rightarrow> Some [SMS phone]))"

text \<open>
  The callback of \<^verbatim>\<open>contacts.map\<close>: the three sends, then the insert into the
  notification log with its literal \<^verbatim>\<open>is_delivered: true\<close>. A throw in a send rejects
  the contact's promise before the insert.
\<close>

definition notify_contact ::
  "env \<Rightarrow> server \<Rightarrow> store \<Rightarrow> user_row option \<Rightarrow> alert_row \<Rightarrow> coord \<Rightarrow> coord \<Rightarrow> contact_row
     \<Rightarrow> store \<times> effect list \<times> bool" where
  "notify_contact e srv st user alert latitude longitude contact =
     (case live_send srv user alert latitude longitude contact of
        None \<Rightarrow> (st, [], False)
      | Some live \<Rightarrow>
          (case fcm_send st user contact of
             None \<Rightarrow> (st, live, False)
           | Some push \<Rightarrow>
               (case sms_send user contact of
                  None \<Rightarrow> (st, live @ push, False)
                | Some sms \<Rightarrow>
                    (insert_notification e st
                       \<lparr>sos_alert_id = alert_id alert,
                        recipient_user_id = contact_user_id contact,
                        recipient_phone = contact_phone contact, recipient_email = None,
                        notification_type =
                          (if truthy (contact_user_id contact) then ''push'' else ''sms''),
                        is_delivered = True, delivered_at = Some (clock e)\<rparr>,
                     live @ push @ sms, True))))"

fun notify_contacts ::
  "env \<Rightarrow> server \<Rightarrow> store \<Rightarrow> user_row option \<Rightarrow> alert_row \<Rightarrow> coord \<Rightarrow> coord
     \<Rightarrow> contact_row list \<Rightarrow> store \<times> effect list \<times> bool list" where
  "notify_contacts e srv st user alert latitude longitude [] = (st, [], [])"
| "notify_contacts e srv st user alert latitude longitude (c # cs) =
     (case notify_contact e srv st user alert latitude longitude c of
        (st1, effs1, ok) \<Rightarrow>
          (case notify_contacts e srv st1 user alert latitude longitude cs of
             (st2, effs2, oks) \<Rightarrow> (st2, effs1 @ effs2, ok # oks)))"

text \<open>
  The handler. The alert insert fails when the database rejects the write or a coordinate
  is missing (\<^verbatim>\<open>NOT NULL\<close> columns); the status of the new row is the column default.
  The callbacks of \<^verbatim>\<open>contacts.map\<close> start together and are taken in their order of
  completion, the sends of one contact kept together. \<^verbatim>\<open>Promise.all\<close> rejects when
  one contact's promise does, and the handler then emits the error event instead of
  \<^verbatim>\<open>sos_sent\<close>; the other contacts' callbacks still run.
\<close>

definition sos_alert ::
  "env \<Rightarrow> server \<Rightarrow> socketId \<Rightarrow> sos_payload \<Rightarrow> server \<times> effect list" where
  "sos_alert e srv socket data =
     (case (db_write_ok e, sp_latitude data, sp_longitude data) of
        (True, Some latitude, Some longitude) \<Rightarrow>
          (let alert = \<lparr>alert_id = fresh_alert_id (db srv), alert_user_id = sp_userId data,
                  alert_latitude = latitude, alert_longitude = longitude,
                  alert_message =
                    (if truthy (sp_message data) then the (sp_message data)
                     else ''Emergency! I need help!''),
                  status = ''active'', is_resolved = False, resolved_at = None,
                  created_at = clock e\<rparr>;
               st1 = (db srv)\<lparr>sos_alerts := sos_alerts (db srv) @ [alert]\<rparr>;
               user = users st1 (sp_userId data);
               contacts = contacts_of st1 (sp_userId data)
           in case notify_contacts e srv st1 user alert latitude longitude
                     (completion_order e contacts) of
                (st2, effs, oks) \<Rightarrow>
                  (srv\<lparr>db := st2\<rparr>,
                   effs @ [Emit socket
                             (if list_all id oks then SosSent (alert_id alert)
                              else ErrorMessage ''Failed to send SOS alert'')]))
      | _ \<Rightarrow> (srv, [Emit socket (ErrorMessage ''Failed to send SOS alert'')]))"

section \<open>What the Socket.IO handler writes to the notification log\<close>

definition logged_as_delivered :: "env \<Rightarrow> notification_row \<Rightarrow> bool" where
  "logged_as_delivered e n =
     (is_delivered n \<and> delivered_at n = Some (clock e) \<and>
      notification_type n = (if truthy (recipient_user_id n) then ''push'' else ''sms''))"

section \<open>Scenarios\<close>

text \<open>
  Concrete users, stores and servers for the evaluations below. Alice has no FCM
  token, Bob has one; Carol, Dave and Mallory have no user row. Coordinates are
  (6.5244, 3.3792) scaled by \<open>10\<^sup>8\<close>.
\<close>

definition alice_row :: user_row where
  "alice_row = \<lparr>full_name = ''Alice'', phone_number = ''+2348000000001'', fcm_token = None\<rparr>"

definition bob_row :: user_row where
  "bob_row = \<lparr>full_name = ''Bob'', phone_number = ''+2348000000002'',
     fcm_token = Some ''tok-bob''\<rparr>"

definition env_ok :: env where
  "env_ok = \<lparr>fcm_ok = (\<lambda>t. True), db_write_ok = True, clock = 100, latency = (\<lambda>c. 0)\<rparr>"

definition env_fcm_down :: env where
  "env_fcm_down = \<lparr>fcm_ok = (\<lambda>t. False), db_write_ok = True, clock = 100,
     latency = (\<lambda>c. 0)\<rparr>"

definition env_later :: env where
  "env_later = \<lparr>fcm_ok = (\<lambda>t. True), db_write_ok = True, clock = 200, latency = (\<lambda>c. 0)\<rparr>"

definition store_users :: store where
  "store_users = empty_store\<lparr>users := [''alice'' \<mapsto> alice_row, ''bob'' \<mapsto> bob_row]\<rparr>"

definition bob_contact :: contact_row where
  "bob_contact = \<lparr>ec_user_id = ''alice'', contact_user_id = Some ''bob'', contact_name = ''Bob'',
     contact_phone = Some ''+2348000000002'', contact_email = None, priority = 1\<rparr>"

definition store_bob_contact :: store where
  "store_bob_contact = store_users\<lparr>emergency_contacts := [bob_contact]\<rparr>"

definition dave_contact :: contact_row where
  "dave_contact = \<lparr>ec_user_id = ''alice'', contact_user_id = None, contact_name = ''Dave'',
     contact_phone = Some ''+2348000000004'', contact_email = None, priority = 2\<rparr>"

definition store_two_contacts :: store where
  "store_two_contacts = store_users\<lparr>emergency_contacts := [bob_contact, dave_contact]\<rparr>"

definition env_bob_slow :: env where
  "env_bob_slow = \<lparr>fcm_ok = (\<lambda>t. True), db_write_ok = True, clock = 100,
     latency = (\<lambda>c. if contact_user_id c = None then 1 else 2)\<rparr>"

definition store_shared_family :: store where
  "store_shared_family = store_users\<lparr>family_members :=
     [\<lparr>fm_family_id = ''f1'', fm_user_id = ''alice''\<rparr>,
      \<lparr>fm_family_id = ''f1'', fm_user_id = ''bob''\<rparr>]\<rparr>"

definition alice_alert :: alert_row where
  "alice_alert = \<lparr>alert_id = 1, alert_user_id = ''alice'', alert_latitude = 652440000,
     alert_longitude = 337920000, alert_message = ''help'', status = ''active'',
     is_resolved = False, resolved_at = None, created_at = 90\<rparr>"

definition store_alert :: store where
  "store_alert = store_users\<lparr>sos_alerts := [alice_alert]\<rparr>"

definition store_connected :: store where
  "store_connected = store_users\<lparr>user_connections :=
     [\<lparr>requester_id = ''alice'', addressee_id = ''bob'', conn_status = ''accepted''\<rparr>]\<rparr>"

definition server_bob_present :: server where
  "server_bob_present = \<lparr>db = store_connected, activeUsers = [''bob'' \<mapsto> 1],
     socket_userId = [1 \<mapsto> ''bob'', 2 \<mapsto> ''alice''], connected = {1, 2}\<rparr>"

definition alice_location :: location_payload where
  "alice_location = \<lparr>lp_userId = ''alice'', lp_latitude = Some 652440000,
     lp_longitude = Some 337920000, lp_accuracy = Some 5, lp_altitude = None,
     lp_speed = None, lp_heading = None\<rparr>"

definition store_expired_grant :: store where
  "store_expired_grant = store_users\<lparr>location_permissions :=
     [\<lparr>perm_user_id = ''alice'', shared_with_user_id = Some ''bob'', is_enabled = True,
       expires_at = Some 50\<rparr>]\<rparr>"

definition server_mallory :: server where
  "server_mallory = \<lparr>db = store_users\<lparr>location_permissions :=
       [\<lparr>perm_user_id = ''alice'', shared_with_user_id = Some ''bob'', is_enabled = True,
         expires_at = None\<rparr>]\<rparr>,
     activeUsers = [''bob'' \<mapsto> 1, ''mallory'' \<mapsto> 3],
     socket_userId = [1 \<mapsto> ''bob'', 3 \<mapsto> ''mallory''], connected = {1, 3}\<rparr>"

definition unreachable_contact :: contact_row where
  "unreachable_contact = \<lparr>ec_user_id = ''alice'', contact_user_id = Some ''carol'',
     contact_name = ''Carol'', contact_phone = None, contact_email = None, priority = 1\<rparr>"

definition server_unreachable :: server where
  "server_unreachable = \<lparr>db = store_users\<lparr>emergency_contacts := [unreachable_contact]\<rparr>,
     activeUsers = [''alice'' \<mapsto> 2], socket_userId = [2 \<mapsto> ''alice''], connected = {2}\<rparr>"

definition alice_sos :: sos_payload where
  "alice_sos = \<lparr>sp_userId = ''alice'', sp_latitude = Some 652440000,
     sp_longitude = Some 337920000, sp_message = None\<rparr>"

lemmas fixture_defs = alice_row_def bob_row_def env_ok_def env_fcm_down_def env_later_def
  store_users_def bob_contact_def store_bob_contact_def alice_alert_def store_alert_def
  store_connected_def server_bob_present_def alice_location_def store_expired_grant_def
  server_mallory_def unreachable_contact_def server_unreachable_def alice_sos_def empty_store_def
  dave_contact_def store_two_contacts_def env_bob_slow_def store_shared_family_def

section \<open>Presence registry: properties\<close>






lemma disconnect_clears_joined_user:
  "socket_userId srv h = Some u \<Longrightarrow> u \<noteq> [] \<Longrightarrow> lookup (disconnect srv h) u = None"
  by (simp add: disconnect_def lookup_def truthy_def Let_def)

text \<open>
  C8. A user joins on connection h1 and again on h2, so that the lookup is h2. The
  disconnect of the stale h1 compares nothing with the registered socket: it deletes the
  user's entry, and the lookup is absent although h2 is still open. (The handler's only
  test is that the id stored on the socket is truthy, which every user id is.)
\<close>

theorem stale_disconnect_clears_presence:
  assumes "u \<noteq> []" and "h1 \<noteq> h2" and "h2 \<in> connected srv"
  shows "lookup (join (join srv h1 u) h2 u) u = Some h2
    \<and> lookup (disconnect (join (join srv h1 u) h2 u) h1) u = None
    \<and> h2 \<in> connected (disconnect (join (join srv h1 u) h2 u) h1)"
proof -
  have "socket_userId (join (join srv h1 u) h2 u) h1 = Some u"
    using assms(2) by (simp add: join_def)
  from disconnect_clears_joined_user [OF this assms(1)]
  have "lookup (disconnect (join (join srv h1 u) h2 u) h1) u = None" .
  moreover have "h2 \<in> connected (disconnect (join (join srv h1 u) h2 u) h1)"
    using assms(2,3) by (simp add: disconnect_def join_def Let_def)
  moreover have "lookup (join (join srv h1 u) h2 u) u = Some h2"
    by (simp add: lookup_def join_def)
  ultimately show ?thesis by simp
qed

theorem stale_disconnect_clears_presence_witness:
  "lookup (join (join (run init_server [Connection 1, Connection 2]) 1 ''alice'') 2 ''alice'')
      ''alice'' = Some 2
   \<and> lookup (disconnect (join (join (run init_server [Connection 1, Connection 2]) 1 ''alice'')
        2 ''alice'') 1) ''alice'' = None
   \<and> 2 \<in> connected (disconnect (join (join (run init_server [Connection 1, Connection 2]) 1
        ''alice'') 2 ''alice'') 1)"
proof -
  have a: "''alice'' \<noteq> []" by simp
  have b: "(1::nat) \<noteq> 2" by simp
  have c: "(2::nat) \<in> connected (run init_server [Connection 1, Connection 2])"
    by (simp add: run_def connection_def init_server_def)
  show ?thesis using stale_disconnect_clears_presence [OF a b c] .
qed

section \<open>Location update router: properties\<close>

lemma location_update_success:
  "db_write_ok e \<Longrightarrow> lp_latitude d = Some la \<Longrightarrow> lp_longitude d = Some lo \<Longrightarrow>
   location_update e srv s d =
     (srv\<lparr>db := (db srv)\<lparr>user_locations := user_locations (db srv) @
         [\<lparr>loc_user_id = lp_userId d, loc_latitude = la, loc_longitude = lo,
           loc_accuracy = lp_accuracy d, loc_altitude = lp_altitude d, loc_speed = lp_speed d,
           loc_heading = lp_heading d, loc_timestamp = clock e\<rparr>]\<rparr>\<rparr>,
      concat (map (\<lambda>perm.
                  case shared_with_user_id perm of
                    None \<Rightarrow> []
                  | Some viewer \<Rightarrow>
                      (case activeUsers srv viewer of
                         None \<Rightarrow> []
                       | Some targetSocketId \<Rightarrow>
                           [Emit targetSocketId
                              (LocationUpdated (lp_userId d) la lo (lp_accuracy d) (clock e))]))
         (filter (\<lambda>p. perm_user_id p = lp_userId d \<and> is_enabled p)
            (location_permissions (db srv)))))"
  by (simp add: location_update_def Let_def cong: option.case_cong)

lemma location_update_failure:
  "\<not> (db_write_ok e \<and> lp_latitude d \<noteq> None \<and> lp_longitude d \<noteq> None) \<Longrightarrow>
   location_update e srv s d = (srv, [Emit s (ErrorMessage ''Failed to update location'')])"
  by (auto simp: location_update_def split: option.splits bool.splits)

text \<open>
  C9. The handler never reads the identity stored on the sending socket: whatever socket
  sends a payload, and whatever identities the sockets joined under, the stored rows and
  the location_updated events are the same, and the stored sample carries the payload's
  userId.
\<close>

theorem location_update_ignores_sender:
  "db (fst (location_update e (srv\<lparr>socket_userId := m\<rparr>) s2 d)) = db (fst (location_update e srv s1 d))
   \<and> filter is_location_updated (snd (location_update e (srv\<lparr>socket_userId := m\<rparr>) s2 d))
     = filter is_location_updated (snd (location_update e srv s1 d))
   \<and> map loc_user_id (drop (length (user_locations (db srv)))
        (user_locations (db (fst (location_update e srv s1 d)))))
     = (if db_write_ok e \<and> lp_latitude d \<noteq> None \<and> lp_longitude d \<noteq> None
        then [lp_userId d] else [])"
proof (cases "db_write_ok e \<and> lp_latitude d \<noteq> None \<and> lp_longitude d \<noteq> None")
  case True
  then obtain la lo where h: "db_write_ok e" "lp_latitude d = Some la" "lp_longitude d = Some lo"
    by auto
  show ?thesis
    by (simp add: location_update_success [OF h] h cong: option.case_cong)
next
  case False
  show ?thesis
    using False by (simp add: location_update_failure [OF False] is_location_updated_def)
qed

theorem location_update_ignores_sender_witness:
  "user_locations (db (fst (location_update env_ok server_mallory 3 alice_location))) =
     [\<lparr>loc_user_id = ''alice'', loc_latitude = 652440000, loc_longitude = 337920000,
       loc_accuracy = Some 5, loc_altitude = None, loc_speed = None, loc_heading = None,
       loc_timestamp = 100\<rparr>]
   \<and> snd (location_update env_ok server_mallory 3 alice_location) =
       [Emit 1 (LocationUpdated ''alice'' 652440000 337920000 (Some 5) 100)]
   \<and> socket_userId server_mallory 3 = Some ''mallory''
   \<and> db (fst (location_update env_ok (server_mallory\<lparr>socket_userId := Map.empty\<rparr>) 1
         alice_location)) = db (fst (location_update env_ok server_mallory 3 alice_location))"
proof -
  have "user_locations (db (fst (location_update env_ok server_mallory 3 alice_location))) =
     [\<lparr>loc_user_id = ''alice'', loc_latitude = 652440000, loc_longitude = 337920000,
       loc_accuracy = Some 5, loc_altitude = None, loc_speed = None, loc_heading = None,
       loc_timestamp = 100\<rparr>]"
    by (simp add: location_update_def Let_def fixture_defs)
  moreover have "snd (location_update env_ok server_mallory 3 alice_location) =
       [Emit 1 (LocationUpdated ''alice'' 652440000 337920000 (Some 5) 100)]"
    by (simp add: location_update_def Let_def fixture_defs)
  moreover have "socket_userId server_mallory 3 = Some ''mallory''"
    by (simp add: fixture_defs)
  ultimately show ?thesis
    using location_update_ignores_sender [where e = env_ok and srv = server_mallory and m = Map.empty
        and ?s2.0 = 1 and d = alice_location and ?s1.0 = 3]
    by simp
qed

text \<open>Without a row in \<^verbatim>\<open>location_permissions\<close> no socket receives a location update.\<close>

lemma location_update_needs_permission_row:
  "location_permissions (db srv) = [] \<Longrightarrow>
   filter is_location_updated (snd (location_update e srv s d)) = []"
  by (auto simp: location_update_def Let_def is_location_updated_def
      split: option.splits bool.splits)

text \<open>
  C3 (evaluation). Bob has an accepted connection with Alice, so
  \<^verbatim>\<open>checkLocationPermission\<close> lets him view her location, and he is present on socket 1.
  Alice's location update reaches nobody: the handler reads its audience from
  \<^verbatim>\<open>location_permissions\<close> alone.
\<close>

theorem location_update_skips_connected_viewer:
  "checkLocationPermission (db server_bob_present) ''bob'' ''alice'' = Inr True
   \<and> lookup server_bob_present ''bob'' = Some 1
   \<and> snd (location_update env_ok server_bob_present 2 alice_location) = []"
  by (simp add: checkLocationPermission_def accepted_between_def single_def lookup_def
      location_update_def Let_def fixture_defs)

section \<open>Authorization: properties\<close>

text \<open>The function never answers no: it answers yes or it throws.\<close>

lemma checkLocationPermission_never_false:
  "checkLocationPermission st requesterId targetUserId \<noteq> Inr False"
  by (simp add: checkLocationPermission_def)

text \<open>
  C5 (evaluation). Bob and Alice have no connection. With a common family the rule of the
  specification admits Bob, and the function throws at the family query instead of
  returning true. With an enabled grant that expired at 50, at time 100 the rule refuses
  Bob, and the function throws as well instead of returning false: the permission query
  is never reached.
\<close>

theorem checkLocationPermission_throws_at_family_query:
  "checkLocationPermission store_shared_family ''bob'' ''alice'' = Inl TypeError
   \<and> canView_spec 100 store_shared_family ''bob'' ''alice''
   \<and> checkLocationPermission store_expired_grant ''bob'' ''alice'' = Inl TypeError
   \<and> \<not> canView_spec 100 store_expired_grant ''bob'' ''alice''"
  by (simp add: checkLocationPermission_def canView_spec_def accepted_between_def
      families_of_def enabled_grants_def single_def fixture_defs)

section \<open>SOS over HTTP: properties\<close>

text \<open>Whenever the no-contacts error is answered, an active alert has been inserted.\<close>

lemma trigger_no_contacts_after_insert:
  "trigger e st userId latitude longitude message =
     (st', effs, Response 400 (ErrorBody no_contacts_error)) \<Longrightarrow>
   \<exists>a. st' = st\<lparr>sos_alerts := sos_alerts st @ [a]\<rparr> \<and> status a = ''active'' \<and>
       alert_user_id a = userId"
  by (auto simp: trigger_def Let_def no_contacts_error_def
      split: option.splits if_splits prod.splits)

text \<open>
  C1 (evaluation). Alice has no emergency contact. Her trigger is answered 400 with the
  no-contacts error, and the store has a new active alert: the insert precedes the check.
\<close>

theorem trigger_no_contacts_creates_alert:
  "trigger env_ok store_users ''alice'' (Some 652440000) (Some 337920000) None =
     (store_users\<lparr>sos_alerts :=
        [\<lparr>alert_id = 1, alert_user_id = ''alice'', alert_latitude = 652440000,
          alert_longitude = 337920000, alert_message = siren @ '' EMERGENCY! Alice needs help!'',
          status = ''active'', is_resolved = False, resolved_at = None, created_at = 100\<rparr>]\<rparr>,
      [], Response 400 (ErrorBody no_contacts_error))"
  by (simp add: trigger_def alert_text_def truthy_def fresh_alert_id_def contacts_of_def
      fixture_defs)

text \<open>A contact with a token whose push fails gets the push attempt only.\<close>

lemma sendSOSNotification_push_failure:
  "fcm_token_of st (contact_user_id c) = Some t \<Longrightarrow> \<not> fcm_ok e t \<Longrightarrow>
   snd (sendSOSNotification e st c (Some u) alert) = ([FCM t ''sos''], False)"
  by (simp add: sendSOSNotification_def)

text \<open>
  C2 (evaluation). Bob is an emergency contact with an FCM token and a phone number. When
  the push is accepted, the SMS follows it. When the push fails, the only send is the push:
  no SMS is attempted, the logged row is an undelivered 'sms', and the promise rejects.
\<close>

theorem sendSOSNotification_push_failure_skips_sms:
  "snd (sendSOSNotification env_ok store_bob_contact bob_contact (Some alice_row) alice_alert) =
     ([FCM ''tok-bob'' ''sos'', SMS ''+2348000000002''], True)
   \<and> sendSOSNotification env_fcm_down store_bob_contact bob_contact (Some alice_row) alice_alert =
     (store_bob_contact\<lparr>sos_notifications :=
        [\<lparr>sos_alert_id = 1, recipient_user_id = Some ''bob'',
          recipient_phone = Some ''+2348000000002'', recipient_email = None,
          notification_type = ''sms'', is_delivered = False, delivered_at = None\<rparr>]\<rparr>,
      [FCM ''tok-bob'' ''sos''], False)"
  by (simp add: sendSOSNotification_def sms_and_log_def insert_notification_def fcm_token_of_def
      truthy_def Let_def fixture_defs)

lemma sendSOSNotification_logs_one:
  assumes "db_write_ok e"
  shows "\<exists>n. sos_notifications (fst (sendSOSNotification e st c (Some u) alert)) =
               sos_notifications st @ [n]
          \<and> recipient_phone n = contact_phone c \<and> recipient_user_id n = contact_user_id c"
  using assms
  by (auto simp: sendSOSNotification_def sms_and_log_def insert_notification_def Let_def
      split: option.splits)

lemma notify_all_logs_each:
  assumes "db_write_ok e"
  shows "\<exists>recs. sos_notifications (fst (notify_all e st cs (Some u) alert)) =
                 sos_notifications st @ recs
          \<and> map (\<lambda>n. (recipient_user_id n, recipient_phone n)) recs =
              map (\<lambda>c. (contact_user_id c, contact_phone c)) cs
          \<and> length (snd (snd (notify_all e st cs (Some u) alert))) = length cs"
proof (induction cs arbitrary: st)
  case Nil
  show ?case by simp
next
  case (Cons c cs)
  obtain st1 effs1 ok where 1: "sendSOSNotification e st c (Some u) alert = (st1, effs1, ok)"
    by (cases "sendSOSNotification e st c (Some u) alert") auto
  obtain st2 effs2 oks where 2: "notify_all e st1 cs (Some u) alert = (st2, effs2, oks)"
    by (cases "notify_all e st1 cs (Some u) alert") auto
  from sendSOSNotification_logs_one [OF assms, of st c u alert] 1
  obtain n where n: "sos_notifications st1 = sos_notifications st @ [n]"
    "recipient_phone n = contact_phone c" "recipient_user_id n = contact_user_id c"
    by auto
  from Cons.IH [of st1] 2
  obtain recs where r: "sos_notifications st2 = sos_notifications st1 @ recs"
    "map (\<lambda>n. (recipient_user_id n, recipient_phone n)) recs =
       map (\<lambda>c. (contact_user_id c, contact_phone c)) cs"
    "length oks = length cs"
    by auto
  have "sos_notifications (fst (notify_all e st (c # cs) (Some u) alert)) =
          sos_notifications st @ (n # recs)"
    by (simp add: 1 2 n r)
  moreover have "length (snd (snd (notify_all e st (c # cs) (Some u) alert))) = length (c # cs)"
    by (simp add: 1 2 r)
  ultimately show ?case using n r
    by (intro exI [of _ "n # recs"]) simp
qed

lemma contacts_of_after_alert:
  "contacts_of (st\<lparr>sos_alerts := x\<rparr>) userId = contacts_of st userId"
  by (simp add: contacts_of_def)

text \<open>
  C6 (as amended). For a caller with a user row and N >= 1 emergency contacts, valid
  coordinates and a database that accepts writes, the trigger answers 200 with
  totalContacts = N and notificationsSent <= N, and appends exactly N notification rows
  after the rows already there: one per contact (as multisets, the recipients of the new
  rows are the contacts, in whatever order the callbacks complete), whatever the number of
  channels attempted for each.
\<close>

theorem trigger_one_record_per_contact:
  assumes "users st userId = Some u" and "db_write_ok e"
    and "latitude = Some lat" and "lat \<noteq> 0" and "longitude = Some lon" and "lon \<noteq> 0"
    and "contacts_of st userId \<noteq> []"
  shows "\<exists>st' effs notificationsSent.
           trigger e st userId latitude longitude message =
             (st', effs,
              Response 200 (TriggerBody (fresh_alert_id st) notificationsSent
                 (length (contacts_of st userId))))
           \<and> notificationsSent \<le> length (contacts_of st userId)
           \<and> length (sos_notifications st') =
               length (sos_notifications st) + length (contacts_of st userId)
           \<and> take (length (sos_notifications st)) (sos_notifications st') = sos_notifications st
           \<and> mset (map (\<lambda>n. (recipient_user_id n, recipient_phone n))
                 (drop (length (sos_notifications st)) (sos_notifications st')))
               = mset (map (\<lambda>c. (contact_user_id c, contact_phone c)) (contacts_of st userId))"
proof -
  have "alert_text message (Some u) \<noteq> None"
    by (simp add: alert_text_def truthy_def split: option.splits)
  then obtain msg where t: "alert_text message (Some u) = Some msg"
    by blast
  define alert where "alert = \<lparr>alert_id = fresh_alert_id st, alert_user_id = userId,
                              alert_latitude = lat, alert_longitude = lon,
                              alert_message = msg, status = ''active'', is_resolved = False,
                              resolved_at = None, created_at = clock e\<rparr>"
  define st1 where "st1 = st\<lparr>sos_alerts := sos_alerts st @ [alert]\<rparr>"
  define cs where "cs = completion_order e (contacts_of st userId)"
  have len_cs: "length cs = length (contacts_of st userId)"
    by (simp add: cs_def completion_order_def)
  have mset_cs: "mset cs = mset (contacts_of st userId)"
    by (simp add: cs_def completion_order_def)
  obtain st2 effs oks where
    na: "notify_all e st1 cs (Some u) alert = (st2, effs, oks)"
    by (cases "notify_all e st1 cs (Some u) alert") auto
  from notify_all_logs_each [OF assms(2), of st1 cs u alert] na
  obtain recs where r: "sos_notifications st2 = sos_notifications st @ recs"
      "map (\<lambda>n. (recipient_user_id n, recipient_phone n)) recs =
         map (\<lambda>c. (contact_user_id c, contact_phone c)) cs"
      "length oks = length cs"
    by (auto simp: st1_def)
  have len: "length recs = length (contacts_of st userId)"
    using r(2) len_cs by (metis length_map)
  have ms: "mset (map (\<lambda>n. (recipient_user_id n, recipient_phone n)) recs) =
              mset (map (\<lambda>c. (contact_user_id c, contact_phone c)) (contacts_of st userId))"
    using mset_cs by (simp add: r(2))
  have tr: "trigger e st userId latitude longitude message =
          (st2, effs,
           Response 200 (TriggerBody (fresh_alert_id st) (length (filter id oks))
              (length (contacts_of st userId))))"
    using assms t na
    by (simp add: trigger_def Let_def alert_def [symmetric] st1_def [symmetric]
          cs_def [symmetric] contacts_of_after_alert)
       (simp add: alert_def st1_def cs_def contacts_of_after_alert)
  have le: "length (filter id oks) \<le> length (contacts_of st userId)"
    using r(3) len_cs length_filter_le [of id oks] by simp
  show ?thesis
    using tr le len ms r(1) by simp
qed

theorem trigger_one_record_per_contact_witness:
  "contacts_of store_two_contacts ''alice'' = [bob_contact, dave_contact]
   \<and> (\<exists>st' effs notificationsSent.
         trigger env_bob_slow store_two_contacts ''alice'' (Some 652440000) (Some 337920000) None =
           (st', effs, Response 200 (TriggerBody 1 notificationsSent 2))
         \<and> notificationsSent \<le> 2
         \<and> length (sos_notifications st') = 2
         \<and> mset (map (\<lambda>n. (recipient_user_id n, recipient_phone n)) (sos_notifications st'))
             = mset [(Some ''bob'', Some ''+2348000000002''), (None, Some ''+2348000000004'')])"
proof -
  have c: "contacts_of store_two_contacts ''alice'' = [bob_contact, dave_contact]"
    by (simp add: contacts_of_def fixture_defs)
  have u: "users store_two_contacts ''alice'' = Some alice_row"
    by (simp add: fixture_defs)
  have w: "db_write_ok env_bob_slow" by (simp add: fixture_defs)
  have n: "contacts_of store_two_contacts ''alice'' \<noteq> []" by (simp add: c)
  have f: "fresh_alert_id store_two_contacts = 1"
    by (simp add: fresh_alert_id_def fixture_defs)
  have e: "sos_notifications store_two_contacts = []" by (simp add: fixture_defs)
  have p: "contact_phone bob_contact = Some ''+2348000000002''"
    "contact_user_id bob_contact = Some ''bob''"
    "contact_phone dave_contact = Some ''+2348000000004''"
    "contact_user_id dave_contact = None" by (simp_all add: fixture_defs)
  have "(652440000::int) \<noteq> 0" and "(337920000::int) \<noteq> 0" by simp_all
  from trigger_one_record_per_contact [OF u w refl this(1) refl this(2) n, of None]
  show ?thesis by (simp add: c f e p numeral_2_eq_2)
qed

text \<open>
  Dave has a phone only and reaches his insert before Bob, whose token is looked up and
  whose push is posted first: the rows are logged in the order Dave, Bob.
\<close>

lemma trigger_rows_in_completion_order:
  "map recipient_phone (sos_notifications (fst
     (trigger env_bob_slow store_two_contacts ''alice'' (Some 652440000) (Some 337920000) None)))
   = [Some ''+2348000000004'', Some ''+2348000000002'']"
  by (simp add: trigger_def alert_text_def fresh_alert_id_def contacts_of_def
      completion_order_def sendSOSNotification_def sms_and_log_def insert_notification_def
      fcm_token_of_def truthy_def Let_def fixture_defs)

text \<open>
  C6 (counterexample). Bob is Alice's only contact; both the push and the SMS are attempted
  for him, and the log receives one row, not one per attempted channel.
\<close>

theorem trigger_two_channels_one_record:
  "snd (trigger env_ok store_bob_contact ''alice'' (Some 652440000) (Some 337920000) None) =
     ([FCM ''tok-bob'' ''sos'', SMS ''+2348000000002''], Response 200 (TriggerBody 1 1 1))
   \<and> sos_notifications
       (fst (trigger env_ok store_bob_contact ''alice'' (Some 652440000) (Some 337920000) None)) =
     [\<lparr>sos_alert_id = 1, recipient_user_id = Some ''bob'',
       recipient_phone = Some ''+2348000000002'', recipient_email = None,
       notification_type = ''push'', is_delivered = True, delivered_at = Some 100\<rparr>]"
  by (simp add: trigger_def alert_text_def fresh_alert_id_def contacts_of_def
      completion_order_def sendSOSNotification_def sms_and_log_def insert_notification_def
      fcm_token_of_def truthy_def Let_def fixture_defs)

text \<open>
  C4 (as amended). For an alert of the caller, whatever its current status, and a database
  that accepts the write, the resolve handler sets status = resolved and resolvedAt to the
  time of this call and answers success: resolving a resolved alert again succeeds again
  and overwrites resolvedAt. The transition is one-way: whoever calls, every alert row is
  afterwards as it was or is resolved, so no call takes an alert out of resolved. Its only
  guard is ownership: for an alert that is unknown or belongs to another user the answer
  is 403 and the store is unchanged.
\<close>

theorem resolve_overwrites_resolved_at:
  "(single (filter (\<lambda>a. alert_id a = alertId) (sos_alerts st)) = Some alert
      \<and> alert_user_id alert = userId \<and> db_write_ok e \<and> users st userId = Some owner
     \<longrightarrow> (\<exists>effs. resolve e st userId alertId =
           (st\<lparr>sos_alerts :=
                 map (\<lambda>a. if alert_id a = alertId
                           then a\<lparr>status := ''resolved'', is_resolved := True,
                                  resolved_at := Some (clock e)\<rparr>
                           else a) (sos_alerts st)\<rparr>,
            effs, Response 200 (MessageBody ''Alert resolved successfully''))))
   \<and> ((case single (filter (\<lambda>a. alert_id a = alertId) (sos_alerts st)) of
          None \<Rightarrow> True
        | Some a \<Rightarrow> alert_user_id a \<noteq> userId)
     \<longrightarrow> resolve e st userId alertId =
           (st, [], Response 403 (ErrorBody ''Unauthorized to resolve this alert'')))
   \<and> list_all2 (\<lambda>a a'. alert_id a' = alert_id a \<and> (a' = a \<or> status a' = ''resolved''))
        (sos_alerts st) (sos_alerts (fst (resolve e st userId alertId)))"
proof -
  have owner_case: "single (filter (\<lambda>a. alert_id a = alertId) (sos_alerts st)) = Some alert
      \<and> alert_user_id alert = userId \<and> db_write_ok e \<and> users st userId = Some owner
     \<longrightarrow> (\<exists>effs. resolve e st userId alertId =
           (st\<lparr>sos_alerts :=
                 map (\<lambda>a. if alert_id a = alertId
                           then a\<lparr>status := ''resolved'', is_resolved := True,
                                  resolved_at := Some (clock e)\<rparr>
                           else a) (sos_alerts st)\<rparr>,
            effs, Response 200 (MessageBody ''Alert resolved successfully'')))"
    by (simp add: resolve_def Let_def split: list.splits)
  have other_case: "(case single (filter (\<lambda>a. alert_id a = alertId) (sos_alerts st)) of
          None \<Rightarrow> True
        | Some a \<Rightarrow> alert_user_id a \<noteq> userId)
     \<longrightarrow> resolve e st userId alertId =
           (st, [], Response 403 (ErrorBody ''Unauthorized to resolve this alert''))"
    by (simp add: resolve_def split: option.splits)
  have one_way: "list_all2 (\<lambda>a a'. alert_id a' = alert_id a \<and> (a' = a \<or> status a' = ''resolved''))
        (sos_alerts st) (sos_alerts (fst (resolve e st userId alertId)))"
    by (simp add: resolve_def Let_def list_all2_map2 list_all2_same
        split: option.splits list.splits)
  from owner_case other_case one_way show ?thesis by blast
qed

theorem resolve_overwrites_resolved_at_witness:
  "map status (sos_alerts (fst (resolve env_ok store_alert ''alice'' 1))) = [''resolved'']
   \<and> (\<exists>effs. resolve env_later (fst (resolve env_ok store_alert ''alice'' 1)) ''alice'' 1 =
         (store_users\<lparr>sos_alerts :=
            [alice_alert\<lparr>status := ''resolved'', is_resolved := True, resolved_at := Some 200\<rparr>]\<rparr>,
          effs, Response 200 (MessageBody ''Alert resolved successfully'')))
   \<and> resolve env_ok store_alert ''bob'' 1 =
       (store_alert, [], Response 403 (ErrorBody ''Unauthorized to resolve this alert''))
   \<and> resolve env_ok store_alert ''alice'' 2 =
       (store_alert, [], Response 403 (ErrorBody ''Unauthorized to resolve this alert''))"
proof -
  define st where "st = fst (resolve env_ok store_alert ''alice'' 1)"
  have st: "st = store_users\<lparr>sos_alerts :=
            [alice_alert\<lparr>status := ''resolved'', is_resolved := True, resolved_at := Some 100\<rparr>]\<rparr>"
    by (simp add: st_def resolve_def single_def Let_def fixture_defs)
  have a: "single (filter (\<lambda>a. alert_id a = 1) (sos_alerts st)) =
             Some (alice_alert\<lparr>status := ''resolved'', is_resolved := True,
                     resolved_at := Some 100\<rparr>)"
    by (simp add: st single_def fixture_defs)
  have b: "alert_user_id (alice_alert\<lparr>status := ''resolved'', is_resolved := True,
                     resolved_at := Some 100\<rparr>) = ''alice''"
    by (simp add: fixture_defs)
  have c: "db_write_ok env_later" by (simp add: fixture_defs)
  have d: "users st ''alice'' = Some alice_row" by (simp add: st fixture_defs)
  have 1: "\<exists>effs. resolve env_later st ''alice'' 1 =
         (store_users\<lparr>sos_alerts :=
            [alice_alert\<lparr>status := ''resolved'', is_resolved := True, resolved_at := Some 200\<rparr>]\<rparr>,
          effs, Response 200 (MessageBody ''Alert resolved successfully''))"
    using resolve_overwrites_resolved_at [where st = st and alertId = 1 and userId = "''alice''"
        and e = env_later and owner = alice_row
        and alert = "alice_alert\<lparr>status := ''resolved'', is_resolved := True,
                     resolved_at := Some 100\<rparr>"] a b c d
    by (simp add: st fixture_defs)
  have 2: "resolve env_ok store_alert ''bob'' 1 =
       (store_alert, [], Response 403 (ErrorBody ''Unauthorized to resolve this alert''))"
    using resolve_overwrites_resolved_at [where st = store_alert and alertId = 1
        and userId = "''bob''" and e = env_ok]
    by (simp add: single_def fixture_defs)
  have 3: "resolve env_ok store_alert ''alice'' 2 =
       (store_alert, [], Response 403 (ErrorBody ''Unauthorized to resolve this alert''))"
    using resolve_overwrites_resolved_at [where st = store_alert and alertId = 2
        and userId = "''alice''" and e = env_ok]
    by (simp add: single_def fixture_defs)
  have 4: "map status (sos_alerts st) = [''resolved'']"
    by (simp add: st fixture_defs)
  from 1 2 3 4 show ?thesis unfolding st_def by simp
qed

text \<open>
  C4 (counterexample). Alice resolves her alert at time 100 and again at time 200. The
  second call is answered like the first, with success and not with an already-resolved
  outcome, and resolvedAt moves from 100 to 200.
\<close>

theorem resolve_twice_moves_resolved_at:
  "map resolved_at (sos_alerts (fst (resolve env_ok store_alert ''alice'' 1))) = [Some 100]
   \<and> snd (snd (resolve env_later (fst (resolve env_ok store_alert ''alice'' 1)) ''alice'' 1)) =
     Response 200 (MessageBody ''Alert resolved successfully'')
   \<and> map resolved_at
       (sos_alerts (fst (resolve env_later (fst (resolve env_ok store_alert ''alice'' 1))
          ''alice'' 1))) = [Some 200]"
  by (simp add: resolve_def single_def Let_def fixture_defs)

section \<open>SOS over Socket.IO: properties\<close>

lemma notify_contact_log:
  "\<exists>recs. sos_notifications (fst (notify_contact e srv st user alert la lo c)) =
            sos_notifications st @ recs \<and> list_all (logged_as_delivered e) recs"
  by (auto simp: notify_contact_def insert_notification_def logged_as_delivered_def
      split: option.splits)

lemma notify_contacts_log:
  "\<exists>recs. sos_notifications (fst (notify_contacts e srv st user alert la lo cs)) =
            sos_notifications st @ recs \<and> list_all (logged_as_delivered e) recs"
proof (induction cs arbitrary: st)
  case Nil
  show ?case by simp
next
  case (Cons c cs)
  obtain st1 effs1 ok where 1: "notify_contact e srv st user alert la lo c = (st1, effs1, ok)"
    by (cases "notify_contact e srv st user alert la lo c") auto
  obtain st2 effs2 oks where 2: "notify_contacts e srv st1 user alert la lo cs = (st2, effs2, oks)"
    by (cases "notify_contacts e srv st1 user alert la lo cs") auto
  from notify_contact_log [of e srv st user alert la lo c] 1
  obtain r1 where r1: "sos_notifications st1 = sos_notifications st @ r1"
    "list_all (logged_as_delivered e) r1" by auto
  from Cons.IH [of st1] 2
  obtain r2 where r2: "sos_notifications st2 = sos_notifications st1 @ r2"
    "list_all (logged_as_delivered e) r2" by auto
  have "sos_notifications (fst (notify_contacts e srv st user alert la lo (c # cs))) =
          sos_notifications st @ (r1 @ r2)"
    by (simp add: 1 2 r1 r2)
  with r1 r2 show ?case
    by (intro exI [of _ "r1 @ r2"]) simp
qed

lemma sos_alert_log:
  "\<exists>recs. sos_notifications (db (fst (sos_alert e srv s d))) =
            sos_notifications (db srv) @ recs \<and> list_all (logged_as_delivered e) recs"
proof (cases "db_write_ok e \<and> sp_latitude d \<noteq> None \<and> sp_longitude d \<noteq> None")
  case True
  then obtain la lo where h: "db_write_ok e" "sp_latitude d = Some la" "sp_longitude d = Some lo"
    by auto
  define alert where "alert = \<lparr>alert_id = fresh_alert_id (db srv), alert_user_id = sp_userId d,
                  alert_latitude = la, alert_longitude = lo,
                  alert_message =
                    (if truthy (sp_message d) then the (sp_message d)
                     else ''Emergency! I need help!''),
                  status = ''active'', is_resolved = False, resolved_at = None,
                  created_at = clock e\<rparr>"
  define st1 where "st1 = (db srv)\<lparr>sos_alerts := sos_alerts (db srv) @ [alert]\<rparr>"
  obtain st2 effs oks where
    2: "notify_contacts e srv st1 (users (db srv) (sp_userId d)) alert la lo
          (completion_order e (contacts_of st1 (sp_userId d))) = (st2, effs, oks)"
    by (cases "notify_contacts e srv st1 (users (db srv) (sp_userId d)) alert la lo
          (completion_order e (contacts_of st1 (sp_userId d)))") auto
  from notify_contacts_log [of e srv st1 "users (db srv) (sp_userId d)" alert la lo
      "completion_order e (contacts_of st1 (sp_userId d))"] 2
  obtain recs where r: "sos_notifications st2 = sos_notifications st1 @ recs"
    "list_all (logged_as_delivered e) recs" by auto
  have "db (fst (sos_alert e srv s d)) = st2"
    using h 2 by (simp add: sos_alert_def Let_def alert_def [symmetric] st1_def [symmetric])
  with r show ?thesis by (auto simp: st1_def)
next
  case False
  then have "fst (sos_alert e srv s d) = srv"
    by (auto simp: sos_alert_def split: option.splits bool.splits)
  then show ?thesis by simp
qed

text \<open>
  C10. Every row the sos_alert handler adds to the notification log has delivered = true
  and deliveredAt set to the time of the call, and its channel is push exactly when the
  contact has a contactUserId: nothing of the row depends on whether a push or an SMS was
  sent or succeeded.
\<close>

theorem sos_alert_logs_delivered:
  "\<forall>n \<in> set (drop (length (sos_notifications (db srv)))
              (sos_notifications (db (fst (sos_alert e srv s d))))).
     is_delivered n \<and> delivered_at n = Some (clock e) \<and>
     notification_type n = (if truthy (recipient_user_id n) then ''push'' else ''sms'')"
proof -
  from sos_alert_log [of e srv s d]
  obtain recs where r: "sos_notifications (db (fst (sos_alert e srv s d))) =
            sos_notifications (db srv) @ recs" "list_all (logged_as_delivered e) recs"
    by auto
  then show ?thesis
    by (simp add: list_all_iff logged_as_delivered_def)
qed


theorem sos_alert_logs_delivered_witness:
  "snd (sos_alert env_ok server_unreachable 2 alice_sos) = [Emit 2 (SosSent 1)]
   \<and> sos_notifications (db (fst (sos_alert env_ok server_unreachable 2 alice_sos))) =
       [\<lparr>sos_alert_id = 1, recipient_user_id = Some ''carol'', recipient_phone = None,
         recipient_email = None, notification_type = ''push'', is_delivered = True,
         delivered_at = Some 100\<rparr>]
   \<and> list_all is_delivered
       (sos_notifications (db (fst (sos_alert env_ok server_unreachable 2 alice_sos))))"
proof -
  have e: "sos_notifications (db server_unreachable) = []" by (simp add: fixture_defs)
  have 1: "snd (sos_alert env_ok server_unreachable 2 alice_sos) = [Emit 2 (SosSent 1)]"
    by (simp add: sos_alert_def notify_contact_def live_send_def fcm_send_def sms_send_def
        fcm_token_of_def insert_notification_def contacts_of_def completion_order_def
        fresh_alert_id_def truthy_def Let_def fixture_defs)
  have 2: "sos_notifications (db (fst (sos_alert env_ok server_unreachable 2 alice_sos))) =
       [\<lparr>sos_alert_id = 1, recipient_user_id = Some ''carol'', recipient_phone = None,
         recipient_email = None, notification_type = ''push'', is_delivered = True,
         delivered_at = Some 100\<rparr>]"
    by (simp add: sos_alert_def notify_contact_def live_send_def fcm_send_def sms_send_def
        fcm_token_of_def insert_notification_def contacts_of_def completion_order_def
        fresh_alert_id_def truthy_def Let_def fixture_defs)
  from sos_alert_logs_delivered [of server_unreachable env_ok 2 alice_sos]
  have "list_all is_delivered
       (sos_notifications (db (fst (sos_alert env_ok server_unreachable 2 alice_sos))))"
    by (simp add: e list_all_iff)
  with 1 2 show ?thesis by simp
qed

end
